theory Spec2Isabelle
  imports Complex_Main
begin

section \<open>odb/ZFactory.h: the class factory\<close>

text \<open>
  \<^verbatim>\<open>ZFactoryImpl<IMPL, INFC>::create(const ZContext& context, ZInterfaceID iid, void** p)\<close>
  allocates an \<^verbatim>\<open>IMPL\<close>, stores the context in it, asks the object for the interface
  and either hands the object out or deletes it again.

  The model keeps what the C++ touches: a heap of objects (an address is allocated when
  the heap maps it to an object), and the caller's \<^verbatim>\<open>void*\<close> slot that \<^verbatim>\<open>p\<close>
  points to (\<open>None\<close> is \<^verbatim>\<open>nullptr\<close>). The types \<^verbatim>\<open>ZContext\<close> and
  \<^verbatim>\<open>ZInterfaceID\<close> are declared in headers outside this file and stay type
  parameters (\<open>'ctx\<close>, \<open>'iid\<close>); the rest of an \<^verbatim>\<open>IMPL\<close> object is \<open>'impl\<close>.
\<close>

type_synonym addr = nat

record ('ctx, 'impl) zobject =
  zcontext :: 'ctx
  zimpl :: 'impl

record ('ctx, 'impl) zstate =
  heap :: "addr \<Rightarrow> ('ctx, 'impl) zobject option"
  out :: "addr option"

text \<open>
  \<^verbatim>\<open>o->QueryInterface(iid, p)\<close> is a method of the template parameter \<^verbatim>\<open>IMPL\<close>: it
  gets the object it is called on, the interface id, and may change the heap and the
  slot; it returns an \<^verbatim>\<open>int\<close>.
\<close>

type_synonym ('ctx, 'impl, 'iid) query_interface =
  "addr \<Rightarrow> 'iid \<Rightarrow> ('ctx, 'impl) zstate \<Rightarrow> int \<times> ('ctx, 'impl) zstate"

text \<open>
  The body of \<^verbatim>\<open>create\<close>, statement by statement:
  \<^verbatim>\<open>IMPL* o = new IMPL;\<close> (\<open>s1\<close>), \<^verbatim>\<open>o->_context = context;\<close> (\<open>s2\<close>),
  \<^verbatim>\<open>if (o->QueryInterface(iid, p) == Z_OK) return Z_OK;\<close> and then
  \<^verbatim>\<open>delete o; *p = nullptr; return Z_ERROR_NO_INTERFACE;\<close>.
  Its parameters besides the C++ arguments are what the header takes from elsewhere: the
  two return codes \<^verbatim>\<open>Z_OK\<close> and \<^verbatim>\<open>Z_ERROR_NO_INTERFACE\<close> (macros of another
  header), the allocator behind \<^verbatim>\<open>new\<close> (\<open>alloc\<close> picks the address; a
  \<^verbatim>\<open>new\<close> that throws is not a call that returns and is left out), the
  default-constructed \<^verbatim>\<open>IMPL\<close> and its \<^verbatim>\<open>QueryInterface\<close>. The result is the
  returned code and the state after the call.
\<close>

definition create ::
  "int \<Rightarrow> int \<Rightarrow> (('ctx, 'impl) zstate \<Rightarrow> addr) \<Rightarrow> ('ctx, 'impl) zobject \<Rightarrow>
   ('ctx, 'impl, 'iid) query_interface \<Rightarrow>
   'ctx \<Rightarrow> 'iid \<Rightarrow> ('ctx, 'impl) zstate \<Rightarrow> int \<times> ('ctx, 'impl) zstate" where
  "create Z_OK Z_ERROR_NO_INTERFACE alloc IMPL QueryInterface ctx iid s =
     (let obj = alloc s;
          s1 = s\<lparr>heap := (heap s)(obj \<mapsto> IMPL)\<rparr>;
          s2 = s1\<lparr>heap := (heap s1)(obj \<mapsto> IMPL\<lparr>zcontext := ctx\<rparr>)\<rparr>;
          (rc, s3) = QueryInterface obj iid s2
      in if rc = Z_OK then (Z_OK, s3)
         else (Z_ERROR_NO_INTERFACE, s3\<lparr>heap := (heap s3)(obj := None), out := None\<rparr>))"

text \<open>The state in which \<^verbatim>\<open>QueryInterface\<close> is called: the new object holds the context.\<close>

definition constructed ::
  "(('ctx, 'impl) zstate \<Rightarrow> addr) \<Rightarrow> ('ctx, 'impl) zobject \<Rightarrow> 'ctx \<Rightarrow>
   ('ctx, 'impl) zstate \<Rightarrow> ('ctx, 'impl) zstate" where
  "constructed alloc IMPL ctx s = s\<lparr>heap := (heap s)(alloc s \<mapsto> IMPL\<lparr>zcontext := ctx\<rparr>)\<rparr>"

text \<open>
  Two implementations used as concrete inputs: one that supports interface \<open>1\<close> only and
  stores the object in the slot when it does, as the implementations of the interface
  do, and the codes \<open>0\<close> and \<open>1\<close>.
\<close>

definition demo_QueryInterface :: "(nat, unit, nat) query_interface" where
  "demo_QueryInterface obj iid s = (if iid = 1 then (0, s\<lparr>out := Some obj\<rparr>) else (1, s))"

definition demo_state :: "(nat, unit) zstate" where
  "demo_state = \<lparr>heap = (\<lambda>a. None), out = Some 3\<rparr>"

definition demo_IMPL :: "(nat, unit) zobject" where
  "demo_IMPL = \<lparr>zcontext = 0, zimpl = ()\<rparr>"

text \<open>
  An implementation whose \<^verbatim>\<open>QueryInterface\<close> answers \<open>0\<close> for every interface and
  leaves the slot alone.
\<close>

definition silent_QueryInterface :: "(nat, unit, nat) query_interface" where
  "silent_QueryInterface obj iid s = (0, s)"

section \<open>gpl/Replace.h: the iteration loop behind \<^verbatim>\<open>doNesterovPlace\<close>\<close>

text \<open>
  The header declares \<^verbatim>\<open>int Replace::doNesterovPlace(int start_iter = 0)\<close>, the members
  \<^verbatim>\<open>int nesterovPlaceMaxIter_\<close> and \<^verbatim>\<open>float overflow_\<close>; the body and the optimizer
  class it drives are in other files of the repository.
\<close>



text \<open>
  Modelled from the spec: the phases of an iteration that call an external engine (the
  feedback code is missing from the header): the routability feedback calls the router,
  the timing feedback the timing engine, and a failing call is an ExternalEngineError
  that aborts the run and names the phase.
\<close>

datatype phase = RoutabilityFeedback | TimingFeedback






section \<open>The factory: results of \<^verbatim>\<open>create\<close>\<close>

lemma create_unfold:
  assumes "QueryInterface (alloc s) iid (constructed alloc IMPL ctx s) = (rc, s3)"
  shows "create Z_OK Z_ERROR_NO_INTERFACE alloc IMPL QueryInterface ctx iid s =
           (if rc = Z_OK then (Z_OK, s3)
            else (Z_ERROR_NO_INTERFACE, s3\<lparr>heap := (heap s3)(alloc s := None), out := None\<rparr>))"
  using assms by (simp add: create_def constructed_def Let_def)

text \<open>
  C10, as the code has it. For every call of \<^verbatim>\<open>create\<close>, with the two codes distinct:
  let \<open>rc\<close> and \<open>s3\<close> be what the new object's \<^verbatim>\<open>QueryInterface\<close> returns and leaves
  behind for the requested interface id. The result is \<^verbatim>\<open>Z_OK\<close> exactly when \<open>rc\<close>
  is \<^verbatim>\<open>Z_OK\<close>, and then \<^verbatim>\<open>create\<close> leaves the state, the slot included, exactly
  as \<^verbatim>\<open>QueryInterface\<close> left it: the result is \<^verbatim>\<open>Z_OK\<close> with the slot holding the
  new object exactly when \<^verbatim>\<open>QueryInterface\<close> returned \<^verbatim>\<open>Z_OK\<close> and had stored the
  object there itself. Otherwise the result is \<^verbatim>\<open>Z_ERROR_NO_INTERFACE\<close>, and the state
  is the one \<^verbatim>\<open>QueryInterface\<close> left with the object deleted and the slot set to
  \<^verbatim>\<open>nullptr\<close>.
\<close>

theorem create_follows_QueryInterface:
  assumes codes: "Z_OK \<noteq> Z_ERROR_NO_INTERFACE"
    and qi: "QueryInterface (alloc s) iid (constructed alloc IMPL ctx s) = (rc, s3)"
    and r: "r = create Z_OK Z_ERROR_NO_INTERFACE alloc IMPL QueryInterface ctx iid s"
  shows "(fst r = Z_OK \<longleftrightarrow> rc = Z_OK) \<and>
         (rc = Z_OK \<longrightarrow> r = (Z_OK, s3)) \<and>
         ((fst r = Z_OK \<and> out (snd r) = Some (alloc s)) \<longleftrightarrow>
            (rc = Z_OK \<and> out s3 = Some (alloc s))) \<and>
         (rc \<noteq> Z_OK \<longrightarrow>
            r = (Z_ERROR_NO_INTERFACE, s3\<lparr>heap := (heap s3)(alloc s := None), out := None\<rparr>) \<and>
            heap (snd r) (alloc s) = None \<and> out (snd r) = None)"
proof (cases "rc = Z_OK")
  case True
  then have "r = (Z_OK, s3)"
    using r qi by (simp add: create_unfold)
  with True show ?thesis by simp
next
  case False
  then have "r = (Z_ERROR_NO_INTERFACE, s3\<lparr>heap := (heap s3)(alloc s := None), out := None\<rparr>)"
    using r qi by (simp add: create_unfold)
  with False codes show ?thesis by auto
qed

theorem create_follows_QueryInterface_witness:
  "(0::int) \<noteq> 1 \<and>
   create 0 1 (\<lambda>s. 5) demo_IMPL demo_QueryInterface 7 1 demo_state =
     (0, \<lparr>heap = (\<lambda>a. None)(5 \<mapsto> \<lparr>zcontext = 7, zimpl = ()\<rparr>), out = Some 5\<rparr>) \<and>
   create 0 1 (\<lambda>s. 5) demo_IMPL demo_QueryInterface 7 2 demo_state =
     (1, \<lparr>heap = (\<lambda>a. None), out = None\<rparr>)"
proof -
  let ?s2 = "constructed (\<lambda>s. 5) demo_IMPL (7::nat) demo_state"
  note inst = create_follows_QueryInterface
    [where Z_OK = 0 and Z_ERROR_NO_INTERFACE = 1 and alloc = "\<lambda>s. 5" and s = demo_state
       and IMPL = demo_IMPL and ctx = "7::nat" and QueryInterface = demo_QueryInterface]
  have codes: "(0::int) \<noteq> 1" by simp
  have ok: "demo_QueryInterface 5 1 ?s2 = (0, ?s2\<lparr>out := Some 5\<rparr>)"
    by (simp add: demo_QueryInterface_def)
  have no: "demo_QueryInterface 5 2 ?s2 = (1, ?s2)"
    by (simp add: demo_QueryInterface_def)
  have a: "create 0 1 (\<lambda>s. 5) demo_IMPL demo_QueryInterface 7 1 demo_state
             = (0, ?s2\<lparr>out := Some 5\<rparr>)"
    using inst [where iid = 1 and rc = 0 and ?s3.0 = "?s2\<lparr>out := Some 5\<rparr>", OF codes ok refl]
    by simp
  have b: "create 0 1 (\<lambda>s. 5) demo_IMPL demo_QueryInterface 7 2 demo_state
             = (1, ?s2\<lparr>heap := (heap ?s2)(5 := None), out := None\<rparr>)"
    using inst [where iid = 2 and rc = 1 and ?s3.0 = "?s2", OF codes no refl]
    by simp
  have c: "?s2\<lparr>out := Some 5\<rparr>
             = \<lparr>heap = (\<lambda>a. None)(5 \<mapsto> \<lparr>zcontext = 7, zimpl = ()\<rparr>), out = Some 5\<rparr>"
    by (simp add: constructed_def demo_state_def demo_IMPL_def)
  have d: "?s2\<lparr>heap := (heap ?s2)(5 := None), out := None\<rparr> = \<lparr>heap = (\<lambda>a. None), out = None\<rparr>"
    by (simp add: constructed_def demo_state_def demo_IMPL_def)
  from codes a b c d show ?thesis by simp
qed

text \<open>
  The claim as worded, "the result is \<^verbatim>\<open>Z_OK\<close> with the slot holding the new object
  exactly when \<^verbatim>\<open>QueryInterface\<close> returns \<^verbatim>\<open>Z_OK\<close>", fails for an implementation
  whose \<^verbatim>\<open>QueryInterface\<close> returns \<^verbatim>\<open>Z_OK\<close> without storing the object:
  \<^verbatim>\<open>create\<close> returns \<^verbatim>\<open>Z_OK\<close> and the slot still holds what the caller had in it
  (\<open>3\<close>), not the new object (\<open>5\<close>), since \<^verbatim>\<open>create\<close> writes the slot only on
  failure.
\<close>

theorem create_ok_without_object_counterexample:
  "fst (silent_QueryInterface 5 1 (constructed (\<lambda>s. 5) demo_IMPL 7 demo_state)) = 0 \<and>
   fst (create 0 1 (\<lambda>s. 5) demo_IMPL silent_QueryInterface 7 1 demo_state) = 0 \<and>
   out (snd (create 0 1 (\<lambda>s. 5) demo_IMPL silent_QueryInterface 7 1 demo_state)) = Some 3 \<and>
   \<not> ((fst (create 0 1 (\<lambda>s. 5) demo_IMPL silent_QueryInterface 7 1 demo_state) = 0 \<and>
        out (snd (create 0 1 (\<lambda>s. 5) demo_IMPL silent_QueryInterface 7 1 demo_state)) = Some 5)
       \<longleftrightarrow> fst (silent_QueryInterface 5 1 (constructed (\<lambda>s. 5) demo_IMPL 7 demo_state)) = 0)"
  by (simp add: create_def silent_QueryInterface_def demo_state_def demo_IMPL_def
      constructed_def Let_def)

section \<open>The iteration loop: termination and the returned count\<close>






end
